theory Spec2Isabelle
  imports Complex_Main
begin

section \<open>JavaScript values read by the client code\<close>

text \<open>
  The client code reads the results of \<^verbatim>\<open>JSON.parse\<close> and of \<^verbatim>\<open>response.json()\<close>.
  A parsed JSON text is one of six kinds of value. A number is kept as the exact value
  its literal denotes (the rounding to a double is not modelled). An object is kept as
  its members in source order; a later member with the same key shadows an earlier one.
  Text is a list of characters with codes below 256.
\<close>

datatype json =
    JNull
  | JBool bool
  | JNum rat
  | JStr string
  | JArr "json list"
  | JObj "(string \<times> json) list"

text \<open>A JavaScript value that may be \<^verbatim>\<open>undefined\<close> (\<open>None\<close>).\<close>

type_synonym jsval = "json option"

text \<open>
  Property read \<^verbatim>\<open>data.key\<close> on a value that is not \<^verbatim>\<open>null\<close>, for the keys the code reads
  (\<^verbatim>\<open>type\<close>, \<^verbatim>\<open>progress\<close>, \<^verbatim>\<open>message\<close>, \<^verbatim>\<open>diagnosisId\<close>, \<^verbatim>\<open>detail\<close>): an object gives its
  member (the last one of that key) or \<^verbatim>\<open>undefined\<close>; numbers, booleans, strings and arrays
  have no property of these names and give \<^verbatim>\<open>undefined\<close>. Reading a property of \<^verbatim>\<open>null\<close>
  throws a TypeError; the callers below treat \<open>JNull\<close> before they call \<open>member\<close>.
\<close>

fun member :: "json \<Rightarrow> string \<Rightarrow> jsval" where
  "member (JObj kvs) k = map_of (rev kvs) k"
| "member _ k = None"

text \<open>JavaScript truthiness, as the operator \<^verbatim>\<open>||\<close> tests it.\<close>

fun truthy :: "jsval \<Rightarrow> bool" where
  "truthy None = False"
| "truthy (Some JNull) = False"
| "truthy (Some (JBool b)) = b"
| "truthy (Some (JNum q)) = (q \<noteq> 0)"
| "truthy (Some (JStr s)) = (s \<noteq> [])"
| "truthy (Some (JArr _)) = True"
| "truthy (Some (JObj _)) = True"

text \<open>\<^verbatim>\<open>a || b\<close>: the left operand when it is truthy, else the right one.\<close>

definition js_or :: "jsval \<Rightarrow> jsval \<Rightarrow> jsval" where
  "js_or a b = (if truthy a then a else b)"

section \<open>JSON.parse\<close>

text \<open>
  \<^verbatim>\<open>JSON.parse\<close> belongs to the JavaScript runtime, not to the repository. The functions of
  the page take it as a parameter \<open>parse\<close> (\<open>None\<close> when it throws a SyntaxError); the
  general theorems hold for every such function. \<open>JSON_parse\<close> below is a reference
  parser of the JSON grammar (ECMA-404) used to run the page on concrete streams. It
  reads text of character codes below 256; an escape \<^verbatim>\<open>\uXXXX\<close> of a larger code is outside
  this text model and is refused.
\<close>

definition is_json_ws :: "char \<Rightarrow> bool" where
  "is_json_ws c \<longleftrightarrow> c = CHR 0x20 \<or> c = CHR 0x09 \<or> c = CHR 0x0A \<or> c = CHR 0x0D"

definition skip_ws :: "string \<Rightarrow> string" where
  "skip_ws s = dropWhile is_json_ws s"

definition is_digit :: "char \<Rightarrow> bool" where
  "is_digit c \<longleftrightarrow> (48::nat) \<le> of_char c \<and> of_char c \<le> (57::nat)"

definition digits_val :: "string \<Rightarrow> nat" where
  "digits_val ds = foldl (\<lambda>a c. 10 * a + (of_char c - 48)) 0 ds"

definition hex_val :: "char \<Rightarrow> nat option" where
  "hex_val c =
     (let n = (of_char c :: nat) in
      if 48 \<le> n \<and> n \<le> 57 then Some (n - 48)
      else if 65 \<le> n \<and> n \<le> 70 then Some (n - 55)
      else if 97 \<le> n \<and> n \<le> 102 then Some (n - 87)
      else None)"

definition hex4 :: "string \<Rightarrow> nat option" where
  "hex4 s =
     (case map hex_val (take 4 s) of
        [Some a, Some b, Some c, Some d] \<Rightarrow> Some (((a * 16 + b) * 16 + c) * 16 + d)
      | _ \<Rightarrow> None)"

definition unescape :: "char \<Rightarrow> char option" where
  "unescape e =
     (if e = CHR 0x22 then Some (CHR 0x22)
      else if e = CHR 0x5C then Some (CHR 0x5C)
      else if e = CHR ''/'' then Some (CHR ''/'')
      else if e = CHR ''b'' then Some (CHR 0x08)
      else if e = CHR ''f'' then Some (CHR 0x0C)
      else if e = CHR ''n'' then Some (CHR 0x0A)
      else if e = CHR ''r'' then Some (CHR 0x0D)
      else if e = CHR ''t'' then Some (CHR 0x09)
      else None)"

text \<open>
  The characters of a string literal after its opening quote: the text up to the closing
  quote, and what follows it.
\<close>

fun parse_string_body :: "nat \<Rightarrow> string \<Rightarrow> (string \<times> string) option" where
  "parse_string_body 0 s = None"
| "parse_string_body (Suc n) [] = None"
| "parse_string_body (Suc n) (c # cs) =
     (if c = CHR 0x22 then Some ([], cs)
      else if c = CHR 0x5C then
        (case cs of
           [] \<Rightarrow> None
         | e # r \<Rightarrow>
             if e = CHR ''u'' then
               (case hex4 r of
                  None \<Rightarrow> None
                | Some u \<Rightarrow>
                    if u < 256 then
                      map_option (apfst ((#) (char_of u))) (parse_string_body n (drop 4 r))
                    else None)
             else
               (case unescape e of
                  None \<Rightarrow> None
                | Some ch \<Rightarrow> map_option (apfst ((#) ch)) (parse_string_body n r)))
      else if (of_char c :: nat) < 32 then None
      else map_option (apfst ((#) c)) (parse_string_body n cs))"

text \<open>
  A number literal: an optional minus, an integer part without a leading zero, an
  optional fraction, an optional exponent.
\<close>

definition parse_number :: "string \<Rightarrow> (json \<times> string) option" where
  "parse_number s =
     (let neg = (s \<noteq> [] \<and> hd s = CHR ''-'');
          s1 = (if neg then tl s else s);
          ip = takeWhile is_digit s1;
          s2 = dropWhile is_digit s1
      in if ip = [] \<or> (length ip > 1 \<and> hd ip = CHR ''0'') then None
         else
           let has_frac = (s2 \<noteq> [] \<and> hd s2 = CHR ''.'');
               fd = (if has_frac then takeWhile is_digit (tl s2) else []);
               s3 = (if has_frac then dropWhile is_digit (tl s2) else s2)
           in if has_frac \<and> fd = [] then None
              else
                let has_exp = (s3 \<noteq> [] \<and> (hd s3 = CHR ''e'' \<or> hd s3 = CHR ''E''));
                    s4 = (if has_exp then tl s3 else s3);
                    eneg = (has_exp \<and> s4 \<noteq> [] \<and> hd s4 = CHR ''-'');
                    epos = (has_exp \<and> s4 \<noteq> [] \<and> hd s4 = CHR ''+'');
                    s5 = (if eneg \<or> epos then tl s4 else s4);
                    ed = (if has_exp then takeWhile is_digit s5 else []);
                    s6 = (if has_exp then dropWhile is_digit s5 else s3)
                in if has_exp \<and> ed = [] then None
                   else
                     let m = (of_nat (digits_val (ip @ fd)) :: rat) / 10 ^ length fd;
                         v = (if eneg then m / 10 ^ digits_val ed else m * 10 ^ digits_val ed)
                     in Some (JNum (if neg then - v else v), s6))"

text \<open>
  A value, the elements of an array after its opening bracket, and the members of an
  object after its opening brace. The first argument bounds the depth of the calls.
\<close>

fun parse_value :: "nat \<Rightarrow> string \<Rightarrow> (json \<times> string) option"
  and parse_elements :: "nat \<Rightarrow> string \<Rightarrow> (json list \<times> string) option"
  and parse_members :: "nat \<Rightarrow> string \<Rightarrow> ((string \<times> json) list \<times> string) option"
where
  "parse_value 0 s = None"
| "parse_value (Suc n) s =
     (case skip_ws s of
        [] \<Rightarrow> None
      | c # cs \<Rightarrow>
          if c = CHR ''{'' then
            (if skip_ws cs \<noteq> [] \<and> hd (skip_ws cs) = CHR ''}''
             then Some (JObj [], tl (skip_ws cs))
             else map_option (apfst JObj) (parse_members n cs))
          else if c = CHR ''['' then
            (if skip_ws cs \<noteq> [] \<and> hd (skip_ws cs) = CHR '']''
             then Some (JArr [], tl (skip_ws cs))
             else map_option (apfst JArr) (parse_elements n cs))
          else if c = CHR 0x22 then
            map_option (apfst JStr) (parse_string_body (Suc (length cs)) cs)
          else if take 4 (c # cs) = ''true'' then Some (JBool True, drop 3 cs)
          else if take 5 (c # cs) = ''false'' then Some (JBool False, drop 4 cs)
          else if take 4 (c # cs) = ''null'' then Some (JNull, drop 3 cs)
          else parse_number (c # cs))"
| "parse_elements 0 s = None"
| "parse_elements (Suc n) s =
     (case parse_value n s of
        None \<Rightarrow> None
      | Some (v, r) \<Rightarrow>
          (case skip_ws r of
             [] \<Rightarrow> None
           | c # r' \<Rightarrow>
               if c = CHR '','' then map_option (apfst ((#) v)) (parse_elements n r')
               else if c = CHR '']'' then Some ([v], r')
               else None))"
| "parse_members 0 s = None"
| "parse_members (Suc n) s =
     (case skip_ws s of
        [] \<Rightarrow> None
      | q # r0 \<Rightarrow>
          if q \<noteq> CHR 0x22 then None
          else
            (case parse_string_body (Suc (length r0)) r0 of
               None \<Rightarrow> None
             | Some (k, r1) \<Rightarrow>
                 (case skip_ws r1 of
                    [] \<Rightarrow> None
                  | col # r2 \<Rightarrow>
                      if col \<noteq> CHR '':'' then None
                      else
                        (case parse_value n r2 of
                           None \<Rightarrow> None
                         | Some (v, r3) \<Rightarrow>
                             (case skip_ws r3 of
                                [] \<Rightarrow> None
                              | c # r4 \<Rightarrow>
                                  if c = CHR '','' then
                                    map_option (apfst ((#) (k, v))) (parse_members n r4)
                                  else if c = CHR ''}'' then Some ([(k, v)], r4)
                                  else None)))))"

text \<open>
  The whole text must be one value, with white space allowed around it. Each nested call
  consumes a character at least every second step, so the bound is never reached.
\<close>

definition JSON_parse :: "string \<Rightarrow> json option" where
  "JSON_parse s =
     (case parse_value (2 * length s + 2) s of
        None \<Rightarrow> None
      | Some (v, r) \<Rightarrow> if skip_ws r = [] then Some v else None)"

section \<open>The Fetch API as the client code sees it\<close>

text \<open>
  A thrown value: an \<^verbatim>\<open>Error\<close> object (whatever passes \<^verbatim>\<open>instanceof Error\<close>) with its
  message, or a value of another kind.
\<close>

datatype thrown = ErrorObj string | NonError

text \<open>The bytes of a \<^verbatim>\<open>Uint8Array\<close>; a character of HOL has eight bits.\<close>

type_synonym bytes = "char list"

text \<open>
  One call \<^verbatim>\<open>reader.read()\<close> that is not the end of the stream: a chunk (the bytes of its
  \<^verbatim>\<open>value\<close>) or a rejection. A body stream is the list of its reads before the one that
  reports \<^verbatim>\<open>done\<close>.
\<close>

datatype read_result = Chunk bytes | ReadError thrown

text \<open>
  The members of a \<^verbatim>\<open>Response\<close> the code uses: \<open>json_result\<close> is what \<^verbatim>\<open>response.json()\<close>
  resolves with (\<open>None\<close> when it rejects), \<open>body\<close> is \<open>None\<close> when \<^verbatim>\<open>response.body\<close> is null.
\<close>

record response =
  ok :: bool
  status :: nat
  json_result :: "json option"
  body :: "read_result list option"

text \<open>
  What \<^verbatim>\<open>await fetch(url, options)\<close> does. The request decides only which outcome the
  environment gives, so the outcome is the input of the functions below.
\<close>

datatype fetch_outcome = Rejects thrown | Resolves response

text \<open>Lines written to the console: the label and the value logged with it.\<close>

datatype log_entry = Debug string string | ErrorLog string thrown

section \<open>lib/config: apiRequest and checkBackendHealth\<close>

text \<open>The decimal digits of a status code, as a template literal prints a number.\<close>

fun show_nat :: "nat \<Rightarrow> string" where
  "show_nat n =
     (if n < 10 then [''0123456789'' ! n]
      else show_nat (n div 10) @ [''0123456789'' ! (n mod 10)])"

declare show_nat.simps [simp del]

text \<open>
  How \<open>apiRequest\<close> fails: the rejection of \<open>fetch\<close> passes through, or the function throws
  \<^verbatim>\<open>new Error(v)\<close>. The message of that Error is \<^verbatim>\<open>String(v)\<close>, which is \<open>s\<close> itself for
  \<open>v = JStr s\<close>.
\<close>

datatype api_failure = Propagated thrown | NewError jsval

text \<open>
  \<^verbatim>\<open>
  const response = await fetch(url, defaultOptions)
  if (!response.ok) {
    let errorMessage = `HTTP error! status: ${response.status}`
    try {
      const errorData = await response.json()
      errorMessage = errorData.detail || errorData.message || errorMessage
    } catch { }
    throw new Error(errorMessage)
  }
  return response
  \<close>
  The inner \<open>case\<close> is the \<^verbatim>\<open>try\<close> block: \<open>None\<close> when it throws (the body is not JSON, or
  the body is \<^verbatim>\<open>null\<close> and the property read throws), and then the default message stays.
\<close>

definition apiRequest :: "fetch_outcome \<Rightarrow> api_failure + response" where
  "apiRequest outcome =
     (case outcome of
        Rejects e \<Rightarrow> Inl (Propagated e)
      | Resolves r \<Rightarrow>
          if \<not> ok r then
            let errorMessage = Some (JStr (''HTTP error! status: '' @ show_nat (status r)));
                assigned =
                  (case json_result r of
                     None \<Rightarrow> None
                   | Some JNull \<Rightarrow> None
                   | Some errorData \<Rightarrow>
                       Some (js_or (js_or (member errorData ''detail'')
                                          (member errorData ''message''))
                                   errorMessage))
            in Inl (NewError (case assigned of None \<Rightarrow> errorMessage | Some m \<Rightarrow> m))
          else Inr r)"

text \<open>
  \<^verbatim>\<open>
  try {
    const response = await fetch(getApiUrl(API_CONFIG.ENDPOINTS.HEALTH), {...})
    return response.ok
  } catch (error) {
    console.error('Backend health check failed:', error)
    return false
  }
  \<close>
  The result is what the returned promise settles with (\<open>Inl\<close>: it rejects) and the
  console lines written.
\<close>

definition checkBackendHealth :: "fetch_outcome \<Rightarrow> (thrown + bool) \<times> log_entry list" where
  "checkBackendHealth outcome =
     (case (case outcome of Rejects e \<Rightarrow> Inl e | Resolves r \<Rightarrow> Inr (ok r)) of
        Inl error \<Rightarrow> (Inr False, [ErrorLog ''Backend health check failed:'' error])
      | Inr b \<Rightarrow> (Inr b, []))"

section \<open>The upload page: processS3Video\<close>

text \<open>
  The state of the page component: its React state variables, the redirects scheduled
  with \<^verbatim>\<open>setTimeout\<close> (each entry is the \<^verbatim>\<open>data.diagnosisId\<close> that
  \<^verbatim>\<open>router.push(`/history/${data.diagnosisId}`)\<close> will print), and the console.
\<close>

record page_state =
  s3Key :: "string option"
  fileName :: "string option"
  isProcessing :: bool
  progress :: jsval
  progressMessage :: jsval
  error :: "string option"
  redirects :: "jsval list"
  console :: "log_entry list"

text \<open>\<^verbatim>\<open>!s3Key\<close>: the value is \<^verbatim>\<open>null\<close> or the empty string.\<close>

definition falsy_str :: "string option \<Rightarrow> bool" where
  "falsy_str x = (case x of None \<Rightarrow> True | Some s \<Rightarrow> s = [])"

text \<open>\<^verbatim>\<open>chunk.split('\n')\<close>: the pieces between the separators, at least one piece.\<close>

fun split_on :: "char \<Rightarrow> string \<Rightarrow> string list" where
  "split_on sep [] = [[]]"
| "split_on sep (c # cs) =
     (let r = split_on sep cs in if c = sep then [] # r else (c # hd r) # tl r)"

text \<open>\<^verbatim>\<open>line.trim()\<close>: white space and line terminators of codes below 256 are removed at both ends.\<close>

definition is_js_space :: "char \<Rightarrow> bool" where
  "is_js_space c \<longleftrightarrow>
     c = CHR 0x09 \<or> c = CHR 0x0A \<or> c = CHR 0x0B \<or> c = CHR 0x0C \<or> c = CHR 0x0D \<or>
     c = CHR 0x20 \<or> c = CHR 0xA0"

definition trim :: "string \<Rightarrow> string" where
  "trim s = rev (dropWhile is_js_space (rev (dropWhile is_js_space s)))"

text \<open>
  The statements of the inner \<^verbatim>\<open>try\<close> block after \<^verbatim>\<open>JSON.parse\<close>; \<open>None\<close> when they throw
  (the property read on \<^verbatim>\<open>null\<close>, and \<^verbatim>\<open>throw new Error(data.message)\<close>).
  \<^verbatim>\<open>
  if (data.type === 'progress') {
    setProgress(data.progress); setProgressMessage(data.message)
  } else if (data.type === 'complete') {
    setProgress(100); setProgressMessage("Analysis complete! Redirecting...")
    setTimeout(() => { router.push(`/history/${data.diagnosisId}`) }, 1500)
  } else if (data.type === 'error') {
    throw new Error(data.message)
  }
  \<close>
\<close>

definition handle_data :: "json \<Rightarrow> page_state \<Rightarrow> page_state option" where
  "handle_data data st =
     (case data of
        JNull \<Rightarrow> None
      | _ \<Rightarrow>
          if member data ''type'' = Some (JStr ''progress'') then
            Some (st\<lparr>progress := member data ''progress'',
                     progressMessage := member data ''message''\<rparr>)
          else if member data ''type'' = Some (JStr ''complete'') then
            Some (st\<lparr>progress := Some (JNum 100),
                     progressMessage := Some (JStr ''Analysis complete! Redirecting...''),
                     redirects := redirects st @ [member data ''diagnosisId'']\<rparr>)
          else if member data ''type'' = Some (JStr ''error'') then None
          else Some st)"

text \<open>
  The inner \<^verbatim>\<open>try\<close>/\<^verbatim>\<open>catch\<close> for one line: whatever the block throws is caught and the
  line is logged as skipped.
  \<^verbatim>\<open>
  try { const data = JSON.parse(line); ... }
  catch (parseError) { console.debug('Skipping non-JSON line:', line) }
  \<close>
\<close>

definition handle_line :: "(string \<Rightarrow> json option) \<Rightarrow> page_state \<Rightarrow> string \<Rightarrow> page_state" where
  "handle_line parse st line =
     (case (case parse line of None \<Rightarrow> None | Some data \<Rightarrow> handle_data data st) of
        None \<Rightarrow> st\<lparr>console := console st @ [Debug ''Skipping non-JSON line:'' line]\<rparr>
      | Some st' \<Rightarrow> st')"

text \<open>\<^verbatim>\<open>for (const line of lines) { if (line.trim()) { ... } }\<close>\<close>

fun process_lines :: "(string \<Rightarrow> json option) \<Rightarrow> page_state \<Rightarrow> string list \<Rightarrow> page_state" where
  "process_lines parse st [] = st"
| "process_lines parse st (line # lines) =
     process_lines parse (if trim line \<noteq> [] then handle_line parse st line else st) lines"

text \<open>
  \<^verbatim>\<open>decoder.decode(value)\<close>: the text of one chunk. The decoder is made once
  (\<^verbatim>\<open>new TextDecoder()\<close>) and called without the \<^verbatim>\<open>stream\<close> option, so every call decodes
  its chunk on its own and keeps nothing of the chunk before: the bytes of one character
  cut by a chunk boundary are not joined, and a byte-order mark is dropped at the start of
  every chunk. The decoder is therefore a function of the chunk. \<^verbatim>\<open>TextDecoder\<close> belongs
  to the runtime; the functions of the page take it as the parameter \<open>decode\<close>, and the
  general theorems hold for every such function. On a chunk of ASCII bytes (codes below
  128) the decoder gives the characters of the same codes: \<open>decode_ascii\<close> is the decoder
  on such chunks, and the concrete streams below hold such bytes only.
\<close>

definition decode_ascii :: "bytes \<Rightarrow> string" where
  "decode_ascii chunk = chunk"

text \<open>
  The \<^verbatim>\<open>while (true)\<close> loop over the reads of a stream that ends: the value thrown, if a
  read rejects, and the state reached.
  \<^verbatim>\<open>
  const { done, value } = await reader.read()
  if (done) break
  const chunk = decoder.decode(value)
  const lines = chunk.split('\n')
  for (const line of lines) { ... }
  \<close>
\<close>

fun read_loop ::
  "(bytes \<Rightarrow> string) \<Rightarrow> (string \<Rightarrow> json option) \<Rightarrow> page_state \<Rightarrow> read_result list
     \<Rightarrow> thrown option \<times> page_state"
where
  "read_loop decode parse st [] = (None, st)"
| "read_loop decode parse st (Chunk v # rs) =
     read_loop decode parse (process_lines parse st (split_on (CHR 0x0A) (decode v))) rs"
| "read_loop decode parse st (ReadError e # rs) = (Some e, st)"

text \<open>The outer \<^verbatim>\<open>try\<close> block, from the call of \<open>fetch\<close> on.\<close>

definition try_block ::
  "(bytes \<Rightarrow> string) \<Rightarrow> (string \<Rightarrow> json option) \<Rightarrow> fetch_outcome \<Rightarrow> page_state
     \<Rightarrow> thrown option \<times> page_state"
where
  "try_block decode parse outcome st =
     (case outcome of
        Rejects e \<Rightarrow> (Some e, st)
      | Resolves r \<Rightarrow>
          if \<not> ok r then (Some (ErrorObj ''Failed to process S3 video''), st)
          else
            (case body r of
               None \<Rightarrow> (Some (ErrorObj ''Failed to read response stream''), st)
             | Some rs \<Rightarrow> read_loop decode parse st rs))"

text \<open>
  \<^verbatim>\<open>
  } catch (error) {
    console.error('Error processing S3 video:', error)
    setError(error instanceof Error ? error.message : 'Failed to process S3 video')
    setProgress(0)
    setProgressMessage("")
  }
  \<close>
\<close>

definition catch_block :: "thrown \<Rightarrow> page_state \<Rightarrow> page_state" where
  "catch_block e st =
     st\<lparr>console := console st @ [ErrorLog ''Error processing S3 video:'' e],
        error := Some (case e of ErrorObj m \<Rightarrow> m | NonError \<Rightarrow> ''Failed to process S3 video''),
        progress := Some (JNum 0),
        progressMessage := Some (JStr [])\<rparr>"

text \<open>
  The whole function: the guard, the four initial updates, the \<^verbatim>\<open>try\<close> block with its
  \<^verbatim>\<open>catch\<close>, and \<^verbatim>\<open>finally { setIsProcessing(false) }\<close>.
\<close>

definition processS3Video ::
  "(bytes \<Rightarrow> string) \<Rightarrow> (string \<Rightarrow> json option) \<Rightarrow> fetch_outcome \<Rightarrow> page_state
     \<Rightarrow> page_state"
where
  "processS3Video decode parse outcome st0 =
     (if falsy_str (s3Key st0) \<or> falsy_str (fileName st0) then st0
      else
        let st1 = st0\<lparr>isProcessing := True,
                      progress := Some (JNum 0),
                      error := None,
                      progressMessage := Some (JStr ''Initializing analysis...'')\<rparr>;
            (exn, st2) = try_block decode parse outcome st1;
            st3 = (case exn of None \<Rightarrow> st2 | Some e \<Rightarrow> catch_block e st2)
        in st3\<lparr>isProcessing := False\<rparr>)"

text \<open>
  The page before a run: the initial values of the \<^verbatim>\<open>useState\<close> calls, and the upload
  callback that stores the key and the file name.
  \<^verbatim>\<open>
  const handleVideoUploaded = (uploadedS3Key, uploadedFileName) => {
    setS3Key(uploadedS3Key); setFileName(uploadedFileName); setError(null) }
  \<close>
\<close>

definition initial_page :: page_state where
  "initial_page =
     \<lparr>s3Key = None, fileName = None, isProcessing = False, progress = Some (JNum 0),
      progressMessage = Some (JStr []), error = None, redirects = [], console = []\<rparr>"

definition handleVideoUploaded :: "string \<Rightarrow> string \<Rightarrow> page_state \<Rightarrow> page_state" where
  "handleVideoUploaded uploadedS3Key uploadedFileName st =
     st\<lparr>s3Key := Some uploadedS3Key, fileName := Some uploadedFileName, error := None\<rparr>"

text \<open>The page after the upload of the specification's example has been reported.\<close>

definition uploaded_page :: page_state where
  "uploaded_page = handleVideoUploaded ''key1'' ''fridge1.mp4'' initial_page"

text \<open>Two page states agree on everything but the console.\<close>

definition same_display :: "page_state \<Rightarrow> page_state \<Rightarrow> bool" where
  "same_display a b \<longleftrightarrow> a\<lparr>console := []\<rparr> = b\<lparr>console := []\<rparr>"

text \<open>A response with an ok status whose body delivers the given chunks and then ends.\<close>

definition stream_response :: "bytes list \<Rightarrow> response" where
  "stream_response chunks =
     \<lparr>ok = True, status = 200, json_result = None, body = Some (map Chunk chunks)\<rparr>"


text \<open>
  Every text but the last ends where a line ends: it is empty or its last character is
  the newline.
\<close>

fun line_aligned :: "string list \<Rightarrow> bool" where
  "line_aligned [] = True"
| "line_aligned [c] = True"
| "line_aligned (c # cs) = ((c = [] \<or> last c = CHR 0x0A) \<and> line_aligned cs)"

text \<open>The displayed percent \<open>a\<close> is a number lower than the number \<open>b\<close>.\<close>

fun percent_lt :: "jsval \<Rightarrow> jsval \<Rightarrow> bool" where
  "percent_lt (Some (JNum a)) (Some (JNum b)) = (a < b)"
| "percent_lt _ _ = False"

text \<open>
  The message of the Error as the specification words it, to compare with \<open>apiRequest\<close>:
  the \<^verbatim>\<open>detail\<close> field of the body if present, else its \<^verbatim>\<open>message\<close> field if present, else
  the default text with the status code (also when the body is not JSON).
\<close>

definition spec_error_message :: "response \<Rightarrow> jsval" where
  "spec_error_message r =
     (let dflt = Some (JStr (''HTTP error! status: '' @ show_nat (status r))) in
      case json_result r of
        None \<Rightarrow> dflt
      | Some errorData \<Rightarrow>
          (case member errorData ''detail'' of
             Some d \<Rightarrow> Some d
           | None \<Rightarrow>
               (case member errorData ''message'' of
                  Some m \<Rightarrow> Some m
                | None \<Rightarrow> dflt)))"

section \<open>The chat tables of supabase-schema.sql\<close>

text \<open>
  The rows of the three tables. Identifiers are text, as the API carries them
  (\<^verbatim>\<open>id: string\<close> in the page's \<^verbatim>\<open>RefrigeratorDiagnosis\<close>); time stamps are numbers. Of
  \<^verbatim>\<open>refrigerator_diagnoses\<close> the key and the \<^verbatim>\<open>NOT NULL\<close> text columns are kept.
  \<^verbatim>\<open>chat_conversations.diagnosis_id\<close> is a nullable \<^verbatim>\<open>TEXT\<close> column, declared without a
  \<^verbatim>\<open>REFERENCES\<close> clause.
\<close>

record diagnosis_row =
  d_id :: string
  d_video_id :: string
  d_file_name :: string
  d_diagnosis_result :: string
  d_solutions :: string
  d_created_at :: nat

record conversation_row =
  c_id :: string
  c_diagnosis_id :: "string option"
  c_title :: string
  c_created_at :: nat
  c_updated_at :: nat

record message_row =
  m_id :: string
  m_conversation_id :: string
  m_role :: string
  m_content :: string
  m_created_at :: nat

record store =
  diagnoses :: "diagnosis_row list"
  conversations :: "conversation_row list"
  messages :: "message_row list"

datatype db_error = CheckViolation | UniqueViolation | ForeignKeyViolation

text \<open>\<^verbatim>\<open>role TEXT NOT NULL CHECK (role IN ('user', 'assistant'))\<close>\<close>

definition role_check :: "string \<Rightarrow> bool" where
  "role_check r \<longleftrightarrow> r = ''user'' \<or> r = ''assistant''"

text \<open>
  \<^verbatim>\<open>INSERT INTO chat_messages\<close> under the declared constraints: the \<^verbatim>\<open>CHECK\<close> on the role,
  the primary key, and the foreign key to \<^verbatim>\<open>chat_conversations(id)\<close>.
\<close>

definition insert_chat_message :: "store \<Rightarrow> message_row \<Rightarrow> db_error + store" where
  "insert_chat_message s m =
     (if \<not> role_check (m_role m) then Inl CheckViolation
      else if m_id m \<in> set (map m_id (messages s)) then Inl UniqueViolation
      else if m_conversation_id m \<notin> set (map c_id (conversations s)) then Inl ForeignKeyViolation
      else Inr (s\<lparr>messages := messages s @ [m]\<rparr>))"

text \<open>
  \<^verbatim>\<open>DELETE FROM chat_conversations WHERE id = c\<close>: the messages of the conversation go with
  it (\<^verbatim>\<open>conversation_id ... REFERENCES chat_conversations(id) ON DELETE CASCADE\<close>).
\<close>

definition delete_chat_conversation :: "store \<Rightarrow> string \<Rightarrow> store" where
  "delete_chat_conversation s c =
     s\<lparr>conversations := filter (\<lambda>r. c_id r \<noteq> c) (conversations s),
       messages := filter (\<lambda>m. m_conversation_id m \<noteq> c) (messages s)\<rparr>"

datatype store_error = ValidationError | NotFoundError | StoreFailure db_error

text \<open>
  Modelled from the spec: the delete operation of the Diagnosis Store (the backend
  handler of \<^verbatim>\<open>DELETE /api/history/{id}\<close>, which the page calls) is not among the sources.
  The specification: it fails with \<open>NotFoundError\<close> if the diagnosis is absent; on
  success it removes, in one step, the Diagnosis and every Conversation and Message owned
  by it. The owned conversations are removed by the operation itself, each with the
  schema's cascade to its messages; the schema declares no foreign key on
  \<^verbatim>\<open>diagnosis_id\<close> that would remove them.
\<close>

definition delete_diagnosis :: "store \<Rightarrow> string \<Rightarrow> store_error + store" where
  "delete_diagnosis s d =
     (if d \<notin> set (map d_id (diagnoses s)) then Inl NotFoundError
      else
        let owned = map c_id (filter (\<lambda>c. c_diagnosis_id c = Some d) (conversations s));
            s1 = foldl delete_chat_conversation s owned
        in Inr (s1\<lparr>diagnoses := filter (\<lambda>r. d_id r \<noteq> d) (diagnoses s1)\<rparr>))"

text \<open>
  Modelled from the spec: \<open>appendMessage\<close> of the Chat Subsystem (the backend handler
  of the message endpoint) is not among the sources. The specification: it fails with
  \<open>ValidationError\<close> if the role is outside user/assistant or the content is empty, with
  \<open>NotFoundError\<close> if the conversation does not exist; otherwise it stores the message and
  bumps the conversation's updated time stamp. The row is stored with the schema's
  insert; \<open>new_id\<close> and \<open>now\<close> stand for the column defaults \<^verbatim>\<open>gen_random_uuid()\<close> and
  \<^verbatim>\<open>NOW()\<close>.
\<close>

definition appendMessage ::
  "store \<Rightarrow> string \<Rightarrow> nat \<Rightarrow> string \<Rightarrow> string \<Rightarrow> string \<Rightarrow> store_error + store"
where
  "appendMessage s new_id now conversationId role content =
     (if \<not> (role = ''user'' \<or> role = ''assistant'') \<or> content = [] then Inl ValidationError
      else if conversationId \<notin> set (map c_id (conversations s)) then Inl NotFoundError
      else
        (case insert_chat_message s
                \<lparr>m_id = new_id, m_conversation_id = conversationId, m_role = role,
                 m_content = content, m_created_at = now\<rparr> of
           Inl e \<Rightarrow> Inl (StoreFailure e)
         | Inr s' \<Rightarrow>
             Inr (s'\<lparr>conversations :=
                       map (\<lambda>c. if c_id c = conversationId then c\<lparr>c_updated_at := now\<rparr> else c)
                           (conversations s')\<rparr>)))"

text \<open>Every stored message has one of the two roles.\<close>

definition roles_valid :: "store \<Rightarrow> bool" where
  "roles_valid s \<longleftrightarrow> (\<forall>m \<in> set (messages s). m_role m = ''user'' \<or> m_role m = ''assistant'')"

text \<open>
  A store for the examples: two diagnoses, each with one conversation; the first
  conversation holds the two messages of the specification's example.
\<close>

definition example_store :: store where
  "example_store =
     \<lparr>diagnoses =
        [\<lparr>d_id = ''d1'', d_video_id = ''key1'', d_file_name = ''fridge1.mp4'',
          d_diagnosis_result = ''drain pan overflow'', d_solutions = ''empty the drain pan'',
          d_created_at = 1\<rparr>,
         \<lparr>d_id = ''d2'', d_video_id = ''key2'', d_file_name = ''fridge2.mp4'',
          d_diagnosis_result = ''worn door seal'', d_solutions = ''replace the seal'',
          d_created_at = 2\<rparr>],
      conversations =
        [\<lparr>c_id = ''c1'', c_diagnosis_id = Some ''d1'', c_title = ''Leak'',
          c_created_at = 3, c_updated_at = 5\<rparr>,
         \<lparr>c_id = ''c2'', c_diagnosis_id = Some ''d2'', c_title = ''Seal'',
          c_created_at = 4, c_updated_at = 6\<rparr>],
      messages =
        [\<lparr>m_id = ''m1'', m_conversation_id = ''c1'', m_role = ''user'',
          m_content = ''why is it leaking?'', m_created_at = 3\<rparr>,
         \<lparr>m_id = ''m2'', m_conversation_id = ''c1'', m_role = ''assistant'',
          m_content = ''check the drain pan'', m_created_at = 5\<rparr>,
         \<lparr>m_id = ''m3'', m_conversation_id = ''c2'', m_role = ''user'',
          m_content = ''is the seal worn?'', m_created_at = 6\<rparr>]\<rparr>"

section \<open>Properties of the line splitting and of the reading loop\<close>

lemma split_on_not_Nil: "split_on sep s \<noteq> []"
  by (induction s) (auto simp: Let_def)

lemma split_on_append_sep: "split_on sep (a @ sep # b) = split_on sep a @ split_on sep b"
  by (induction a) (auto simp: Let_def split_on_not_Nil)

lemma split_on_snoc_sep: "split_on sep (a @ [sep]) = split_on sep a @ [[]]"
  using split_on_append_sep [of sep a "[]"] by simp

lemma trim_Nil: "trim [] = []"
  by (simp add: trim_def)

lemma process_lines_append:
  "process_lines parse st (xs @ ys) = process_lines parse (process_lines parse st xs) ys"
  by (induction xs arbitrary: st) auto

text \<open>
  A chunk that ends with a newline contributes its lines and one empty piece, which the
  loop skips: handling it and then the rest is handling the joined text.
\<close>

lemma process_chunk_line_end:
  assumes "c = [] \<or> last c = CHR 0x0A"
  shows "process_lines parse (process_lines parse st (split_on (CHR 0x0A) c))
           (split_on (CHR 0x0A) rest)
         = process_lines parse st (split_on (CHR 0x0A) (c @ rest))"
proof (cases "c = []")
  case True
  then show ?thesis by (simp add: trim_Nil)
next
  case False
  with assms obtain a where c: "c = a @ [CHR 0x0A]"
    by (metis append_butlast_last_id)
  show ?thesis
    unfolding c
    by (simp add: split_on_append_sep split_on_snoc_sep process_lines_append trim_Nil)
qed

lemma read_loop_line_aligned:
  "line_aligned (map decode cs) \<Longrightarrow>
   read_loop decode parse st (map Chunk cs)
     = (None, process_lines parse st (split_on (CHR 0x0A) (concat (map decode cs))))"
proof (induction cs arbitrary: st rule: line_aligned.induct)
  case 1
  show ?case by (simp add: trim_Nil)
next
  case (2 c)
  show ?case by simp
next
  case (3 c c' cs)
  then have al: "decode c = [] \<or> last (decode c) = CHR 0x0A"
    and rest: "line_aligned (map decode (c' # cs))"
    by simp_all
  have "read_loop decode parse st (map Chunk (c # c' # cs))
        = read_loop decode parse (process_lines parse st (split_on (CHR 0x0A) (decode c)))
            (map Chunk (c' # cs))"
    by simp
  also have "\<dots> = (None, process_lines parse
                         (process_lines parse st (split_on (CHR 0x0A) (decode c)))
                         (split_on (CHR 0x0A) (concat (map decode (c' # cs)))))"
    using "3.IH" [OF rest] by blast
  also have "\<dots> = (None, process_lines parse st
                         (split_on (CHR 0x0A) (decode c @ concat (map decode (c' # cs)))))"
    using process_chunk_line_end [OF al] by simp
  finally show ?case by simp
qed

lemma read_loop_append:
  "read_loop decode parse st (xs @ ys) =
     (case read_loop decode parse st xs of
        (Some e, st') \<Rightarrow> (Some e, st')
      | (None, st') \<Rightarrow> read_loop decode parse st' ys)"
proof (induction xs arbitrary: st)
  case Nil
  show ?case by simp
next
  case (Cons x xs)
  show ?case by (cases x) (simp_all add: Cons.IH)
qed



lemma handle_line_progress:
  assumes "parse line = Some data" "member data ''type'' = Some (JStr ''progress'')"
  shows "handle_line parse st line =
           st\<lparr>progress := member data ''progress'', progressMessage := member data ''message''\<rparr>"
proof -
  from assms(2) have "data \<noteq> JNull" by auto
  with assms show ?thesis
    by (cases data) (simp_all add: handle_line_def handle_data_def)
qed

section \<open>The chunk-reading loop and the boundaries of the chunks\<close>

text \<open>
  C1, as the code has it. The loop decodes every chunk on its own and splits its text
  into lines; it carries neither pending text nor decoder state to the next chunk. Take
  two sequences of chunks such that the texts of the chunks, each decoded on its own,
  join to the same text, and such that each of these texts but the last is empty or ends
  with a newline. On both, \<open>processS3Video\<close> ends in the same state (display, scheduled
  redirects and skipped lines alike), for every decoder, every parser and every starting
  state.
\<close>

theorem chunking_at_line_ends:
  assumes "line_aligned (map decode cs)" and "line_aligned (map decode cs')"
    and "concat (map decode cs) = concat (map decode cs')"
  shows "processS3Video decode parse (Resolves (r\<lparr>body := Some (map Chunk cs)\<rparr>)) st
         = processS3Video decode parse (Resolves (r\<lparr>body := Some (map Chunk cs')\<rparr>)) st"
  using assms by (simp add: processS3Video_def try_block_def read_loop_line_aligned Let_def)

text \<open>
  C1, witness: the two progress lines of the specification's example, delivered as two
  chunks and as one.
\<close>

theorem chunking_at_line_ends_witness:
  \<open>line_aligned (map decode_ascii
     [''{"type":"progress","progress":10,"message":"Analyzing"}'' @ [CHR 0x0A],
      ''{"type":"progress","progress":90,"message":"Finalizing"}'' @ [CHR 0x0A]]) \<and>
   line_aligned (map decode_ascii
     [''{"type":"progress","progress":10,"message":"Analyzing"}'' @ [CHR 0x0A] @
      ''{"type":"progress","progress":90,"message":"Finalizing"}'' @ [CHR 0x0A]]) \<and>
   concat (map decode_ascii
     [''{"type":"progress","progress":10,"message":"Analyzing"}'' @ [CHR 0x0A],
      ''{"type":"progress","progress":90,"message":"Finalizing"}'' @ [CHR 0x0A]])
   = concat (map decode_ascii
     [''{"type":"progress","progress":10,"message":"Analyzing"}'' @ [CHR 0x0A] @
      ''{"type":"progress","progress":90,"message":"Finalizing"}'' @ [CHR 0x0A]]) \<and>
   processS3Video decode_ascii JSON_parse
     (Resolves ((stream_response [])\<lparr>body := Some (map Chunk
        [''{"type":"progress","progress":10,"message":"Analyzing"}'' @ [CHR 0x0A],
         ''{"type":"progress","progress":90,"message":"Finalizing"}'' @ [CHR 0x0A]])\<rparr>))
     uploaded_page
   = processS3Video decode_ascii JSON_parse
     (Resolves ((stream_response [])\<lparr>body := Some (map Chunk
        [''{"type":"progress","progress":10,"message":"Analyzing"}'' @ [CHR 0x0A] @
         ''{"type":"progress","progress":90,"message":"Finalizing"}'' @ [CHR 0x0A]])\<rparr>))
     uploaded_page\<close>
proof -
  have a: \<open>line_aligned (map decode_ascii
     [''{"type":"progress","progress":10,"message":"Analyzing"}'' @ [CHR 0x0A],
      ''{"type":"progress","progress":90,"message":"Finalizing"}'' @ [CHR 0x0A]])\<close>
    by (simp add: decode_ascii_def)
  have b: \<open>line_aligned (map decode_ascii
     [''{"type":"progress","progress":10,"message":"Analyzing"}'' @ [CHR 0x0A] @
      ''{"type":"progress","progress":90,"message":"Finalizing"}'' @ [CHR 0x0A]])\<close>
    by (simp add: decode_ascii_def)
  have c: \<open>concat (map decode_ascii
     [''{"type":"progress","progress":10,"message":"Analyzing"}'' @ [CHR 0x0A],
      ''{"type":"progress","progress":90,"message":"Finalizing"}'' @ [CHR 0x0A]])
   = concat (map decode_ascii
     [''{"type":"progress","progress":10,"message":"Analyzing"}'' @ [CHR 0x0A] @
      ''{"type":"progress","progress":90,"message":"Finalizing"}'' @ [CHR 0x0A]])\<close>
    by (simp add: decode_ascii_def)
  from chunking_at_line_ends
         [where parse = JSON_parse and r = "stream_response []" and st = uploaded_page,
          OF a b c]
  show ?thesis
    using a b c by blast
qed

text \<open>
  C1, counterexample. The same bytes, one progress record and its newline, arrive once
  as one chunk and once cut inside the record. The first run displays 10; the second
  parses each fragment on its own, skips both, and still displays 0.
\<close>

theorem split_record_counterexample:
  \<open>concat [''{"type":"pro'', ''gress","progress":10,"message":"Analyzing"}'' @ [CHR 0x0A]]
     = ''{"type":"progress","progress":10,"message":"Analyzing"}'' @ [CHR 0x0A] \<and>
   progress (processS3Video decode_ascii JSON_parse
     (Resolves (stream_response
        [''{"type":"progress","progress":10,"message":"Analyzing"}'' @ [CHR 0x0A]]))
     uploaded_page) = Some (JNum 10) \<and>
   progress (processS3Video decode_ascii JSON_parse
     (Resolves (stream_response
        [''{"type":"pro'', ''gress","progress":10,"message":"Analyzing"}'' @ [CHR 0x0A]]))
     uploaded_page) = Some (JNum 0)\<close>
  by code_simp

section \<open>The displayed percent\<close>

text \<open>
  C4, as the code has it. A progress event sets the displayed percent to the value the
  event carries, whatever is displayed before it: no clamp to the previous maximum is
  applied, and the displayed percent goes down exactly when the event carries a number
  lower than the one displayed.
\<close>

theorem progress_event_sets_percent:
  assumes "parse line = Some data" and "member data ''type'' = Some (JStr ''progress'')"
  shows "progress (handle_line parse st line) = member data ''progress'' \<and>
         (percent_lt (progress (handle_line parse st line)) (progress st)
            \<longleftrightarrow> percent_lt (member data ''progress'') (progress st))"
  using handle_line_progress [of parse line data st] assms by simp

text \<open>
  C4, witness: with 90 displayed, the progress line of 10 percent is parsed and handled;
  10 is displayed.
\<close>

theorem progress_event_sets_percent_witness:
  \<open>JSON_parse ''{"type":"progress","progress":10,"message":"Analyzing"}''
     = Some (JObj [(''type'', JStr ''progress''), (''progress'', JNum 10),
                   (''message'', JStr ''Analyzing'')]) \<and>
   progress (handle_line JSON_parse (uploaded_page\<lparr>progress := Some (JNum 90)\<rparr>)
               ''{"type":"progress","progress":10,"message":"Analyzing"}'') = Some (JNum 10) \<and>
   percent_lt
     (progress (handle_line JSON_parse (uploaded_page\<lparr>progress := Some (JNum 90)\<rparr>)
                  ''{"type":"progress","progress":10,"message":"Analyzing"}''))
     (progress (uploaded_page\<lparr>progress := Some (JNum 90)\<rparr>))\<close>
proof -
  have p: \<open>JSON_parse ''{"type":"progress","progress":10,"message":"Analyzing"}''
     = Some (JObj [(''type'', JStr ''progress''), (''progress'', JNum 10),
                   (''message'', JStr ''Analyzing'')])\<close>
    by code_simp
  have t: "member (JObj [(''type'', JStr ''progress''), (''progress'', JNum 10),
                   (''message'', JStr ''Analyzing'')]) ''type'' = Some (JStr ''progress'')"
    by simp
  show ?thesis
    using p t
      progress_event_sets_percent
        [where parse = JSON_parse and st = "uploaded_page\<lparr>progress := Some (JNum 90)\<rparr>",
         OF p t]
    by simp
qed

text \<open>
  C4, counterexample. A stream delivers a progress event of 90 percent and then one of
  10 percent. After the first the page displays 90, after the second 10.
\<close>

theorem percent_regresses_counterexample:
  \<open>progress (snd (read_loop decode_ascii JSON_parse uploaded_page
      [Chunk (''{"type":"progress","progress":90,"message":"Finalizing"}'' @ [CHR 0x0A])]))
     = Some (JNum 90) \<and>
   progress (snd (read_loop decode_ascii JSON_parse uploaded_page
      [Chunk (''{"type":"progress","progress":90,"message":"Finalizing"}'' @ [CHR 0x0A]),
       Chunk (''{"type":"progress","progress":10,"message":"Analyzing"}'' @ [CHR 0x0A])]))
     = Some (JNum 10) \<and>
   percent_lt (Some (JNum 10)) (Some (JNum 90))\<close>
  by code_simp

section \<open>Events after a terminal event\<close>




section \<open>Failure before the stream\<close>

text \<open>
  C7. When a run starts and the response has a status that is not ok, or has no body to
  read, the page ends with a fixed message as its error (the first for the status, the
  second for the body), not processing, with percent 0 and an empty progress message.
  Nothing else changes: no line is handled and no redirect is scheduled.
\<close>

theorem transport_failure:
  assumes "\<not> falsy_str (s3Key st)" and "\<not> falsy_str (fileName st)"
    and "\<not> ok r \<or> body r = None"
  shows "processS3Video decode parse (Resolves r) st =
           st\<lparr>isProcessing := False,
              progress := Some (JNum 0),
              progressMessage := Some (JStr []),
              error := Some (if \<not> ok r then ''Failed to process S3 video''
                             else ''Failed to read response stream''),
              console := console st @
                [ErrorLog ''Error processing S3 video:''
                   (ErrorObj (if \<not> ok r then ''Failed to process S3 video''
                              else ''Failed to read response stream''))]\<rparr>"
  using assms by (auto simp: processS3Video_def try_block_def catch_block_def Let_def)

text \<open>
  C7, witness: a response of status 503 (whose body, a complete event, is never read),
  and a response of status 200 without a body.
\<close>

theorem transport_failure_witness:
  \<open>error (processS3Video decode_ascii JSON_parse
      (Resolves \<lparr>ok = False, status = 503, json_result = None,
                 body = Some [Chunk (''{"type":"complete","diagnosisId":"d1"}'' @ [CHR 0x0A])]\<rparr>)
      uploaded_page) = Some ''Failed to process S3 video'' \<and>
   redirects (processS3Video decode_ascii JSON_parse
      (Resolves \<lparr>ok = False, status = 503, json_result = None,
                 body = Some [Chunk (''{"type":"complete","diagnosisId":"d1"}'' @ [CHR 0x0A])]\<rparr>)
      uploaded_page) = [] \<and>
   error (processS3Video decode_ascii JSON_parse
      (Resolves \<lparr>ok = True, status = 200, json_result = None, body = None\<rparr>)
      uploaded_page) = Some ''Failed to read response stream''\<close>
proof -
  have k: "\<not> falsy_str (s3Key uploaded_page)" and f: "\<not> falsy_str (fileName uploaded_page)"
    by (simp_all add: uploaded_page_def handleVideoUploaded_def falsy_str_def)
  have r: "redirects uploaded_page = []"
    by (simp add: uploaded_page_def handleVideoUploaded_def initial_page_def)
  show ?thesis
    using r
      transport_failure
        [where decode = decode_ascii and parse = JSON_parse
           and r = "\<lparr>ok = False, status = 503, json_result = None,
                 body = Some [Chunk (''{\"type\":\"complete\",\"diagnosisId\":\"d1\"}'' @ [CHR 0x0A])]\<rparr>",
         OF k f]
      transport_failure
        [where decode = decode_ascii and parse = JSON_parse
           and r = "\<lparr>ok = True, status = 200, json_result = None, body = None\<rparr>",
         OF k f]
    by simp
qed

section \<open>Lines that are not JSON\<close>

lemma same_display_refl: "same_display a a"
  by (simp add: same_display_def)

lemma same_display_console: "same_display (st\<lparr>console := k\<rparr>) st"
  by (simp add: same_display_def)

lemma same_displayD: "same_display a b \<Longrightarrow> a = b\<lparr>console := console a\<rparr>"
  by (cases a, cases b) (simp add: same_display_def)

lemma handle_data_console:
  "handle_data d (st\<lparr>console := k\<rparr>) = map_option (\<lambda>s. s\<lparr>console := k\<rparr>) (handle_data d st)"
  by (cases d) (simp_all add: handle_data_def)

lemma handle_line_same_display:
  assumes "same_display a b"
  shows "same_display (handle_line parse a l) (handle_line parse b l)"
proof -
  from assms have a: "a = b\<lparr>console := console a\<rparr>" by (rule same_displayD)
  have "same_display (handle_line parse (b\<lparr>console := k\<rparr>) l) (handle_line parse b l)" for k
    by (auto simp: handle_line_def handle_data_console same_display_def split: option.splits)
  with a show ?thesis by metis
qed

lemma process_lines_same_display:
  "same_display a b \<Longrightarrow> same_display (process_lines parse a ls) (process_lines parse b ls)"
  by (induction ls arbitrary: a b) (auto intro: handle_line_same_display)

lemma read_loop_same_display:
  "same_display a b \<Longrightarrow>
   fst (read_loop decode parse a rs) = fst (read_loop decode parse b rs) \<and>
   same_display (snd (read_loop decode parse a rs)) (snd (read_loop decode parse b rs))"
proof (induction rs arbitrary: a b)
  case Nil
  then show ?case by simp
next
  case (Cons r rs)
  show ?case
  proof (cases r)
    case (Chunk c)
    with Cons show ?thesis by (simp add: process_lines_same_display)
  next
    case (ReadError e)
    with Cons.prems show ?thesis by simp
  qed
qed

lemma catch_block_same_display:
  "same_display a b \<Longrightarrow> same_display (catch_block e a) (catch_block e b)"
  by (cases a, cases b) (simp add: same_display_def catch_block_def)

lemma isProcessing_same_display:
  "same_display a b \<Longrightarrow> same_display (a\<lparr>isProcessing := v\<rparr>) (b\<lparr>isProcessing := v\<rparr>)"
  by (cases a, cases b) (simp add: same_display_def)

lemma handle_line_unparsed:
  "parse bad = None \<Longrightarrow>
   handle_line parse st bad = st\<lparr>console := console st @ [Debug ''Skipping non-JSON line:'' bad]\<rparr>"
  by (simp add: handle_line_def)

lemma process_lines_drop_unparsed:
  assumes "parse bad = None"
  shows "same_display (process_lines parse st (before @ bad # after))
                      (process_lines parse st (before @ after))"
proof -
  let ?s = "process_lines parse st before"
  have "same_display (if trim bad \<noteq> [] then handle_line parse ?s bad else ?s) ?s"
    using assms by (simp add: handle_line_unparsed same_display_console same_display_refl)
  then show ?thesis
    by (simp add: process_lines_append process_lines_same_display)
qed

text \<open>
  C6. A line that \<open>JSON.parse\<close> rejects changes nothing but the console, where it is
  logged as skipped: no error is set and the loop goes on. A run whose stream holds such
  a line among the lines of a chunk ends in the same state, the console apart, as the
  run whose chunk holds the other lines only; the lines after it are handled as usual.
\<close>

theorem malformed_line_skipped:
  assumes "parse bad = None"
    and "split_on (CHR 0x0A) (decode c) = before @ bad # after"
    and "split_on (CHR 0x0A) (decode c') = before @ after"
  shows "handle_line parse st bad
           = st\<lparr>console := console st @ [Debug ''Skipping non-JSON line:'' bad]\<rparr> \<and>
         same_display
           (processS3Video decode parse (Resolves (r\<lparr>body := Some (pre @ Chunk c # post)\<rparr>)) st)
           (processS3Video decode parse (Resolves (r\<lparr>body := Some (pre @ Chunk c' # post)\<rparr>)) st)"
proof
  show "handle_line parse st bad
          = st\<lparr>console := console st @ [Debug ''Skipping non-JSON line:'' bad]\<rparr>"
    using assms(1) by (rule handle_line_unparsed)
next
  have loop: "fst (read_loop decode parse s (pre @ Chunk c # post))
                = fst (read_loop decode parse s (pre @ Chunk c' # post)) \<and>
              same_display (snd (read_loop decode parse s (pre @ Chunk c # post)))
                           (snd (read_loop decode parse s (pre @ Chunk c' # post)))" for s
  proof (cases "read_loop decode parse s pre")
    case (Pair x s1)
    show ?thesis
    proof (cases x)
      case None
      have "same_display (process_lines parse s1 (split_on (CHR 0x0A) (decode c)))
                         (process_lines parse s1 (split_on (CHR 0x0A) (decode c')))"
        unfolding assms(2,3) using assms(1) by (rule process_lines_drop_unparsed)
      from read_loop_same_display [OF this, of decode parse post] show ?thesis
        using Pair None by (simp add: read_loop_append)
    next
      case (Some e)
      with Pair show ?thesis by (simp add: read_loop_append same_display_refl)
    qed
  qed
  show "same_display
          (processS3Video decode parse (Resolves (r\<lparr>body := Some (pre @ Chunk c # post)\<rparr>)) st)
          (processS3Video decode parse (Resolves (r\<lparr>body := Some (pre @ Chunk c' # post)\<rparr>)) st)"
  proof (cases "falsy_str (s3Key st) \<or> falsy_str (fileName st) \<or> \<not> ok r")
    case True
    then show ?thesis
      by (auto simp: processS3Video_def try_block_def same_display_refl Let_def)
  next
    case False
    define st1 where "st1 = st\<lparr>isProcessing := True, progress := Some (JNum 0), error := None,
                                progressMessage := Some (JStr ''Initializing analysis...'')\<rparr>"
    obtain x s2 where A: "read_loop decode parse st1 (pre @ Chunk c # post) = (x, s2)"
      by (cases "read_loop decode parse st1 (pre @ Chunk c # post)")
    obtain x' s2' where B: "read_loop decode parse st1 (pre @ Chunk c' # post) = (x', s2')"
      by (cases "read_loop decode parse st1 (pre @ Chunk c' # post)")
    from loop [of st1] A B have x: "x = x'" and sd: "same_display s2 s2'" by simp_all
    have "same_display (case x of None \<Rightarrow> s2 | Some e \<Rightarrow> catch_block e s2)
                       (case x of None \<Rightarrow> s2' | Some e \<Rightarrow> catch_block e s2')"
      using sd by (cases x) (simp_all add: catch_block_same_display)
    then have "same_display ((case x of None \<Rightarrow> s2 | Some e \<Rightarrow> catch_block e s2)\<lparr>isProcessing := False\<rparr>)
                       ((case x of None \<Rightarrow> s2' | Some e \<Rightarrow> catch_block e s2')\<lparr>isProcessing := False\<rparr>)"
      by (rule isProcessing_same_display)
    then show ?thesis
      using False A B x by (simp add: processS3Video_def try_block_def Let_def st1_def)
  qed
qed

text \<open>
  C6, witness: a line that is not JSON between the two progress lines of the
  specification's example; the run still ends with the second event displayed.
\<close>

theorem malformed_line_skipped_witness:
  \<open>JSON_parse ''not json'' = None \<and>
   same_display
     (processS3Video decode_ascii JSON_parse
        (Resolves ((stream_response [])\<lparr>body := Some
           [Chunk (''{"type":"progress","progress":10,"message":"Analyzing"}'' @ [CHR 0x0A] @
                   ''not json'' @ [CHR 0x0A] @
                   ''{"type":"progress","progress":90,"message":"Finalizing"}'' @ [CHR 0x0A])]\<rparr>))
        uploaded_page)
     (processS3Video decode_ascii JSON_parse
        (Resolves ((stream_response [])\<lparr>body := Some
           [Chunk (''{"type":"progress","progress":10,"message":"Analyzing"}'' @ [CHR 0x0A] @
                   ''{"type":"progress","progress":90,"message":"Finalizing"}'' @ [CHR 0x0A])]\<rparr>))
        uploaded_page) \<and>
   progress (processS3Video decode_ascii JSON_parse
        (Resolves ((stream_response [])\<lparr>body := Some
           [Chunk (''{"type":"progress","progress":10,"message":"Analyzing"}'' @ [CHR 0x0A] @
                   ''not json'' @ [CHR 0x0A] @
                   ''{"type":"progress","progress":90,"message":"Finalizing"}'' @ [CHR 0x0A])]\<rparr>))
        uploaded_page) = Some (JNum 90)\<close>
proof -
  have p: "JSON_parse ''not json'' = None"
    by code_simp
  have c: \<open>split_on (CHR 0x0A) (decode_ascii
       (''{"type":"progress","progress":10,"message":"Analyzing"}'' @ [CHR 0x0A] @
        ''not json'' @ [CHR 0x0A] @
        ''{"type":"progress","progress":90,"message":"Finalizing"}'' @ [CHR 0x0A]))
     = [''{"type":"progress","progress":10,"message":"Analyzing"}''] @ ''not json'' #
       [''{"type":"progress","progress":90,"message":"Finalizing"}'', []]\<close>
    by code_simp
  have c': \<open>split_on (CHR 0x0A) (decode_ascii
       (''{"type":"progress","progress":10,"message":"Analyzing"}'' @ [CHR 0x0A] @
        ''{"type":"progress","progress":90,"message":"Finalizing"}'' @ [CHR 0x0A]))
     = [''{"type":"progress","progress":10,"message":"Analyzing"}''] @
       [''{"type":"progress","progress":90,"message":"Finalizing"}'', []]\<close>
    by code_simp
  have v: \<open>progress (processS3Video decode_ascii JSON_parse
        (Resolves ((stream_response [])\<lparr>body := Some
           [Chunk (''{"type":"progress","progress":10,"message":"Analyzing"}'' @ [CHR 0x0A] @
                   ''not json'' @ [CHR 0x0A] @
                   ''{"type":"progress","progress":90,"message":"Finalizing"}'' @ [CHR 0x0A])]\<rparr>))
        uploaded_page) = Some (JNum 90)\<close>
    by code_simp
  show ?thesis
    using p v
      malformed_line_skipped
        [where decode = decode_ascii and parse = JSON_parse and st = uploaded_page
           and r = "stream_response []" and pre = "[]" and post = "[]", OF p c c']
    by simp
qed

section \<open>The error event\<close>

text \<open>
  C2, what the code does. The stream of the specification's example holds only the
  event \<^verbatim>\<open>{"type":"error","message":"model unavailable"}\<close>. The Error thrown for it is thrown
  inside the inner \<^verbatim>\<open>try\<close> block, whose \<^verbatim>\<open>catch\<close> logs the line as skipped; the outer
  \<^verbatim>\<open>catch\<close>, which would set the error, is never reached. The run ends not processing
  and without an error.
\<close>

theorem error_event_swallowed:
  \<open>error (processS3Video decode_ascii JSON_parse
      (Resolves (stream_response [''{"type":"error","message":"model unavailable"}'' @ [CHR 0x0A]]))
      uploaded_page) = None \<and>
   isProcessing (processS3Video decode_ascii JSON_parse
      (Resolves (stream_response [''{"type":"error","message":"model unavailable"}'' @ [CHR 0x0A]]))
      uploaded_page) = False \<and>
   console (processS3Video decode_ascii JSON_parse
      (Resolves (stream_response [''{"type":"error","message":"model unavailable"}'' @ [CHR 0x0A]]))
      uploaded_page)
     = [Debug ''Skipping non-JSON line:'' ''{"type":"error","message":"model unavailable"}'']\<close>
  by code_simp

section \<open>apiRequest and checkBackendHealth\<close>

text \<open>
  C9, as the code has it. \<open>apiRequest\<close> returns the response exactly when \<open>fetch\<close>
  resolves with a response whose status is ok. For another response it throws an Error
  made from the \<^verbatim>\<open>detail\<close> field of the JSON body if that field is truthy, else from its
  \<^verbatim>\<open>message\<close> field if that one is truthy, else from the default text with the status
  code; the default also applies when the body is not JSON or is \<^verbatim>\<open>null\<close>.
\<close>

theorem apiRequest_outcome:
  "((\<exists>resp. apiRequest outcome = Inr resp) \<longleftrightarrow> (\<exists>r. outcome = Resolves r \<and> ok r)) \<and>
   apiRequest (Resolves r) =
     (if ok r then Inr r
      else
        let detail = (case json_result r of None \<Rightarrow> None | Some b \<Rightarrow> member b ''detail'');
            message = (case json_result r of None \<Rightarrow> None | Some b \<Rightarrow> member b ''message'')
        in Inl (NewError
             (if truthy detail then detail
              else if truthy message then message
              else Some (JStr (''HTTP error! status: '' @ show_nat (status r))))))"
proof
  show "(\<exists>resp. apiRequest outcome = Inr resp) \<longleftrightarrow> (\<exists>r. outcome = Resolves r \<and> ok r)"
    by (cases outcome) (auto simp: apiRequest_def Let_def)
next
  show "apiRequest (Resolves r) =
     (if ok r then Inr r
      else
        let detail = (case json_result r of None \<Rightarrow> None | Some b \<Rightarrow> member b ''detail'');
            message = (case json_result r of None \<Rightarrow> None | Some b \<Rightarrow> member b ''message'')
        in Inl (NewError
             (if truthy detail then detail
              else if truthy message then message
              else Some (JStr (''HTTP error! status: '' @ show_nat (status r))))))"
  proof (cases "json_result r")
    case None
    then show ?thesis by (simp add: apiRequest_def Let_def)
  next
    case (Some b)
    then show ?thesis
      by (cases b) (simp_all add: apiRequest_def Let_def js_or_def)
  qed
qed

text \<open>
  C9, witness: a 404 with a detail, a 502 whose body is not JSON, and a 204.
\<close>

theorem apiRequest_outcome_witness:
  "apiRequest (Resolves \<lparr>ok = False, status = 404,
       json_result = Some (JObj [(''detail'', JStr ''Not Found'')]), body = None\<rparr>)
     = Inl (NewError (Some (JStr ''Not Found''))) \<and>
   apiRequest (Resolves \<lparr>ok = False, status = 502, json_result = None, body = None\<rparr>)
     = Inl (NewError (Some (JStr ''HTTP error! status: 502''))) \<and>
   apiRequest (Resolves \<lparr>ok = True, status = 204, json_result = None, body = None\<rparr>)
     = Inr \<lparr>ok = True, status = 204, json_result = None, body = None\<rparr>"
proof -
  have s: "show_nat 502 = ''502''" by code_simp
  show ?thesis
    using
      apiRequest_outcome [of "Rejects NonError" "\<lparr>ok = False, status = 404,
         json_result = Some (JObj [(''detail'', JStr ''Not Found'')]), body = None\<rparr>"]
      apiRequest_outcome [of "Rejects NonError"
         "\<lparr>ok = False, status = 502, json_result = None, body = None\<rparr>"]
      apiRequest_outcome [of "Rejects NonError"
         "\<lparr>ok = True, status = 204, json_result = None, body = None\<rparr>"]
    by (simp add: s)
qed

text \<open>
  C9, counterexample. The body of a 500 response is \<^verbatim>\<open>{"detail": ""}\<close>. The field is
  present, so the message as the specification words it is the empty text; the code
  finds the field falsy and throws the default message.
\<close>

theorem empty_detail_counterexample:
  "spec_error_message \<lparr>ok = False, status = 500,
       json_result = Some (JObj [(''detail'', JStr [])]), body = None\<rparr> = Some (JStr []) \<and>
   apiRequest (Resolves \<lparr>ok = False, status = 500,
       json_result = Some (JObj [(''detail'', JStr [])]), body = None\<rparr>)
     = Inl (NewError (Some (JStr ''HTTP error! status: 500'')))"
  by code_simp

text \<open>
  C10. For every outcome of the request \<open>checkBackendHealth\<close> returns a boolean and its
  promise never rejects; the boolean is true exactly when the request resolves with an
  ok status.
\<close>

theorem checkBackendHealth_total:
  "fst (checkBackendHealth outcome)
     = Inr (case outcome of Rejects e \<Rightarrow> False | Resolves r \<Rightarrow> ok r)"
  by (cases outcome) (simp_all add: checkBackendHealth_def)

text \<open>
  C10, witness: a request that fails in the network, a response of status 503, a
  response of status 200.
\<close>

theorem checkBackendHealth_total_witness:
  "fst (checkBackendHealth (Rejects (ErrorObj ''Failed to fetch''))) = Inr False \<and>
   fst (checkBackendHealth (Resolves \<lparr>ok = False, status = 503, json_result = None, body = None\<rparr>))
     = Inr False \<and>
   fst (checkBackendHealth (Resolves \<lparr>ok = True, status = 200, json_result = None, body = None\<rparr>))
     = Inr True"
  using checkBackendHealth_total [of "Rejects (ErrorObj ''Failed to fetch'')"]
    checkBackendHealth_total [of "Resolves \<lparr>ok = False, status = 503, json_result = None, body = None\<rparr>"]
    checkBackendHealth_total [of "Resolves \<lparr>ok = True, status = 200, json_result = None, body = None\<rparr>"]
  by simp

section \<open>The store: deletion and the roles of messages\<close>

lemma foldl_delete_conversations:
  "conversations (foldl delete_chat_conversation s cs)
     = filter (\<lambda>r. c_id r \<notin> set cs) (conversations s)"
  by (induction cs arbitrary: s) (auto simp: delete_chat_conversation_def intro: filter_cong)

lemma foldl_delete_messages:
  "messages (foldl delete_chat_conversation s cs)
     = filter (\<lambda>m. m_conversation_id m \<notin> set cs) (messages s)"
  by (induction cs arbitrary: s) (auto simp: delete_chat_conversation_def intro: filter_cong)

lemma foldl_delete_diagnoses:
  "diagnoses (foldl delete_chat_conversation s cs) = diagnoses s"
  by (induction cs arbitrary: s) (auto simp: delete_chat_conversation_def)

text \<open>
  C3. Deleting a diagnosis that is in the store succeeds, and in the state it returns
  the diagnosis is gone, no conversation has it as its \<open>diagnosis_id\<close>, and no message
  belongs to a conversation that had. The operation is one step of the model: no state in
  between is visible.
\<close>

theorem delete_diagnosis_cascades:
  assumes "d \<in> set (map d_id (diagnoses s))"
  shows "\<exists>s'. delete_diagnosis s d = Inr s' \<and>
           d \<notin> set (map d_id (diagnoses s')) \<and>
           (\<forall>c \<in> set (conversations s'). c_diagnosis_id c \<noteq> Some d) \<and>
           (\<forall>m \<in> set (messages s'). \<forall>c \<in> set (conversations s).
               c_diagnosis_id c = Some d \<longrightarrow> m_conversation_id m \<noteq> c_id c)"
  using assms
  by (auto simp: delete_diagnosis_def Let_def foldl_delete_conversations
        foldl_delete_messages foldl_delete_diagnoses)

text \<open>C3, witness: the first diagnosis of the example store is deleted.\<close>

theorem delete_diagnosis_cascades_witness:
  "''d1'' \<in> set (map d_id (diagnoses example_store)) \<and>
   (\<exists>s'. delete_diagnosis example_store ''d1'' = Inr s' \<and>
      ''d1'' \<notin> set (map d_id (diagnoses s')) \<and>
      (\<forall>c \<in> set (conversations s'). c_diagnosis_id c \<noteq> Some ''d1'') \<and>
      (\<forall>m \<in> set (messages s'). \<forall>c \<in> set (conversations example_store).
          c_diagnosis_id c = Some ''d1'' \<longrightarrow> m_conversation_id m \<noteq> c_id c))"
proof -
  have h: "''d1'' \<in> set (map d_id (diagnoses example_store))"
    by (simp add: example_store_def)
  from delete_diagnosis_cascades [OF h] h show ?thesis by blast
qed

lemma insert_chat_message_roles:
  "roles_valid s \<Longrightarrow> insert_chat_message s m = Inr s' \<Longrightarrow> roles_valid s'"
  by (auto simp: insert_chat_message_def roles_valid_def role_check_def split: if_splits)

text \<open>
  C8. \<open>appendMessage\<close> with a role other than user or assistant fails with
  \<open>ValidationError\<close> and returns no store, and the table's \<^verbatim>\<open>CHECK\<close> by itself refuses
  such a row. A store whose messages all have one of the two roles keeps that property
  when \<open>appendMessage\<close> succeeds.
\<close>

theorem appendMessage_role_checked:
  "(\<not> (role = ''user'' \<or> role = ''assistant'') \<longrightarrow>
      appendMessage s new_id now conversationId role content = Inl ValidationError \<and>
      insert_chat_message s \<lparr>m_id = new_id, m_conversation_id = conversationId, m_role = role,
                              m_content = content, m_created_at = now\<rparr> = Inl CheckViolation) \<and>
   (roles_valid s \<longrightarrow>
      (\<forall>s'. appendMessage s new_id now conversationId role content = Inr s' \<longrightarrow> roles_valid s'))"
proof (intro conjI impI allI)
  assume "\<not> (role = ''user'' \<or> role = ''assistant'')"
  then show "appendMessage s new_id now conversationId role content = Inl ValidationError"
    and "insert_chat_message s \<lparr>m_id = new_id, m_conversation_id = conversationId, m_role = role,
                              m_content = content, m_created_at = now\<rparr> = Inl CheckViolation"
    by (simp_all add: appendMessage_def insert_chat_message_def role_check_def)
next
  fix s'
  assume v: "roles_valid s" and a: "appendMessage s new_id now conversationId role content = Inr s'"
  from a obtain s1 where
    i: "insert_chat_message s \<lparr>m_id = new_id, m_conversation_id = conversationId, m_role = role,
                              m_content = content, m_created_at = now\<rparr> = Inr s1"
    and s': "s' = s1\<lparr>conversations :=
                       map (\<lambda>c. if c_id c = conversationId then c\<lparr>c_updated_at := now\<rparr> else c)
                           (conversations s1)\<rparr>"
    by (auto simp: appendMessage_def split: if_splits sum.splits)
  from insert_chat_message_roles [OF v i] have "roles_valid s1" .
  then show "roles_valid s'"
    by (simp add: s' roles_valid_def)
qed

text \<open>
  C8, witness: on the example store the role \<^verbatim>\<open>system\<close> is refused and a user message
  is stored.
\<close>

theorem appendMessage_role_checked_witness:
  "appendMessage example_store ''m4'' 7 ''c1'' ''system'' ''x'' = Inl ValidationError \<and>
   roles_valid example_store \<and>
   (\<exists>s'. appendMessage example_store ''m4'' 7 ''c1'' ''user'' ''is it safe?'' = Inr s' \<and>
      roles_valid s')"
proof -
  have v: "roles_valid example_store"
    by (simp add: roles_valid_def example_store_def)
  have n: "\<not> (''system'' = ''user'' \<or> ''system'' = ''assistant'')"
    by simp
  obtain s' where a: "appendMessage example_store ''m4'' 7 ''c1'' ''user'' ''is it safe?'' = Inr s'"
    by (simp add: appendMessage_def insert_chat_message_def role_check_def example_store_def)
  show ?thesis
    using v n a
      appendMessage_role_checked [of "''system''" example_store "''m4''" 7 "''c1''" "''x''"]
      appendMessage_role_checked [of "''user''" example_store "''m4''" 7 "''c1''" "''is it safe?''"]
    by blast
qed

end
